theory Spec2Isabelle
  imports Main "HOL-Library.Monad_Syntax"
begin

section \<open>Strings and the pattern primitives used by the settings views\<close>

text \<open>
  A JavaScript string is modelled as a \<^typ>\<open>string\<close>, a list of characters.  The
  patterns of \<^verbatim>\<open>settingsLayout.jsx\<close> only compare characters with ASCII literals
  and with the slash, so they treat every other character alike.
\<close>

text \<open>
  A literal piece of a regular expression, matched at the current position: the rest
  of the input after the literal, or \<open>None\<close> when the input does not continue with it.
\<close>

fun match_literal :: "string \<Rightarrow> string \<Rightarrow> string option" where
  "match_literal [] s = Some s"
| "match_literal (c # cs) [] = None"
| "match_literal (c # cs) (d # ds) = (if c = d then match_literal cs ds else None)"

text \<open>
  The capture group \<^verbatim>\<open>([^\/]+)\<close>: one or more characters other than the slash,
  greedily.  In both patterns the group is followed by a literal slash, so giving back
  characters can never help: the character after a shorter run is not a slash.  The
  group is therefore the longest run of non-slash characters, and it must not be empty.
\<close>

definition not_slash :: "char \<Rightarrow> bool" where
  "not_slash c = (c \<noteq> CHR ''/'')"

definition match_segment :: "string \<Rightarrow> (string \<times> string) option" where
  "match_segment s =
     (let g = takeWhile not_slash s
      in if g = [] then None else Some (g, dropWhile not_slash s))"

text \<open>
  \<^verbatim>\<open>String.prototype.replace\<close> with a string pattern: only the first occurrence of
  the pattern is replaced; a string without the pattern is returned as it is.  None of
  the replacement strings of the source contains a dollar sign, so they are inserted
  literally.
\<close>

fun replace_string :: "string \<Rightarrow> string \<Rightarrow> string \<Rightarrow> string" where
  "replace_string pat rep [] = (if pat = [] then rep else [])"
| "replace_string pat rep (c # cs) =
     (case match_literal pat (c # cs) of
        Some rest \<Rightarrow> rep @ rest
      | None \<Rightarrow> c # replace_string pat rep cs)"

text \<open>
  An unanchored \<^verbatim>\<open>RegExp.prototype.test\<close>: the pattern, given as a matcher at one
  position, is tried at every position of the input from left to right, the end of the
  input included.
\<close>

fun regex_test :: "(string \<Rightarrow> bool) \<Rightarrow> string \<Rightarrow> bool" where
  "regex_test m [] = m []"
| "regex_test m (c # cs) = (m (c # cs) \<or> regex_test m cs)"


section \<open>The legacy-path translator of \<^verbatim>\<open>settingsLayout.jsx\<close>\<close>

text \<open>
  \<^verbatim>\<open>projectRegex = /^\/settings\/organization\/([^\/]+)\/project\/([^\/]+)\//\<close>.
  The result of a match is the two captured groups and the input after the match.
\<close>

definition projectRegex :: "string \<Rightarrow> (string \<times> string \<times> string) option" where
  "projectRegex s = do {
     s1 \<leftarrow> match_literal ''/settings/organization/'' s;
     (org, s2) \<leftarrow> match_segment s1;
     s3 \<leftarrow> match_literal ''/project/'' s2;
     (proj, s4) \<leftarrow> match_segment s3;
     rest \<leftarrow> match_literal ''/'' s4;
     Some (org, proj, rest)
   }"

text \<open>\<^verbatim>\<open>accountRegex = /^\/settings\/account\/([^\/]+)\//\<close>.\<close>

definition accountRegex :: "string \<Rightarrow> (string \<times> string) option" where
  "accountRegex s = do {
     s1 \<leftarrow> match_literal ''/settings/account/'' s;
     (section, s2) \<leftarrow> match_segment s1;
     rest \<leftarrow> match_literal ''/'' s2;
     Some (section, rest)
   }"

text \<open>The anonymous pattern \<^verbatim>\<open>/^\/settings\/organization\//\<close> of the last branch.\<close>

definition organizationRegex :: "string \<Rightarrow> string option" where
  "organizationRegex s = match_literal ''/settings/organization/'' s"

text \<open>
  \<^verbatim>\<open>pathname.replace(regex, template)\<close> for the three patterns: the matched prefix is
  replaced by the template with \<^verbatim>\<open>$1\<close> and \<^verbatim>\<open>$2\<close> filled in, the input after the
  match is kept, and an input that does not match is returned unchanged.
\<close>

definition replace_projectRegex :: "string \<Rightarrow> string" where
  "replace_projectRegex s =
     (case projectRegex s of
        Some (org, proj, rest) \<Rightarrow> ''/'' @ org @ ''/'' @ proj @ ''/settings/'' @ rest
      | None \<Rightarrow> s)"

definition replace_accountRegex :: "string \<Rightarrow> string" where
  "replace_accountRegex s =
     (case accountRegex s of
        Some (section, rest) \<Rightarrow> ''/account/settings/'' @ section @ ''/'' @ rest
      | None \<Rightarrow> s)"

definition replace_organizationRegex :: "string \<Rightarrow> string" where
  "replace_organizationRegex s =
     (case organizationRegex s of
        Some rest \<Rightarrow> ''/organizations/'' @ rest
      | None \<Rightarrow> s)"

definition isProject :: "string \<Rightarrow> bool" where
  "isProject pathname = (projectRegex pathname \<noteq> None)"

definition isAccount :: "string \<Rightarrow> bool" where
  "isAccount pathname = (accountRegex pathname \<noteq> None)"

text \<open>The four chained string replacements of the account branch, in the source's order.\<close>

definition account_replacements :: "string \<Rightarrow> string" where
  "account_replacements s =
     replace_string ''auth-tokens/'' ''''
       (replace_string ''account/settings/api/'' ''api/''
         (replace_string ''settings/close-account/'' ''remove/''
           (replace_string ''details/'' '''' s)))"

definition oldLocation :: "string \<Rightarrow> string" where
  "oldLocation pathname =
     (if isProject pathname then replace_projectRegex pathname
      else if isAccount pathname then account_replacements (replace_accountRegex pathname)
      else replace_organizationRegex pathname)"

text \<open>
  The pattern \<^verbatim>\<open>/\/(auth|account)\//\<close> at one position: a slash, one of the two
  alternatives (the second is tried when the first does not lead to a match), a slash.
\<close>

definition auth_or_account :: "string \<Rightarrow> bool" where
  "auth_or_account s =
     (case match_literal ''/'' s of
        None \<Rightarrow> False
      | Some s1 \<Rightarrow>
          (case match_literal ''auth'' s1 of
             None \<Rightarrow> False
           | Some s2 \<Rightarrow> match_literal ''/'' s2 \<noteq> None)
          \<or>
          (case match_literal ''account'' s1 of
             None \<Rightarrow> False
           | Some s2 \<Rightarrow> match_literal ''/'' s2 \<noteq> None))"

text \<open>\<^verbatim>\<open>isRouter = !/\/(auth|account)\//.test(location.pathname)\<close>.\<close>

definition isRouter :: "string \<Rightarrow> bool" where
  "isRouter pathname = (\<not> regex_test auth_or_account pathname)"

text \<open>
  The rendered link.  \<^verbatim>\<open>LinkWithFallback\<close> is the router's \<^verbatim>\<open>Link\<close> component or the
  plain tag \<^verbatim>\<open>'a'\<close>; \<^verbatim>\<open>linkProps\<close> carries the legacy path in \<^verbatim>\<open>to\<close> or in
  \<^verbatim>\<open>href\<close>, the other property being \<^verbatim>\<open>undefined\<close>.  The alert around the link is
  the same text for every input and is left out.
\<close>

datatype component = Link | Anchor

record linkProps =
  href :: "string option"
  to :: "string option"

record link_element =
  LinkWithFallback :: component
  props :: linkProps

datatype js_error = TypeError

text \<open>
  The argument \<^verbatim>\<open>location\<close> is the router's location object, of which only
  \<^verbatim>\<open>pathname\<close> is read; a missing property is \<open>None\<close>.  The parameter default
  \<^verbatim>\<open>{location = {}}\<close> turns an absent location into the empty object, whose
  \<^verbatim>\<open>pathname\<close> is \<^verbatim>\<open>undefined\<close>.  On \<^verbatim>\<open>undefined\<close> both tests coerce their
  argument to the string \<^verbatim>\<open>undefined\<close> and fail, and the last branch then calls
  \<^verbatim>\<open>replace\<close> on \<^verbatim>\<open>undefined\<close>, which throws a \<^verbatim>\<open>TypeError\<close>.
\<close>

record location =
  pathname :: "string option"

definition NewSettingsWarning :: "'a location_scheme option \<Rightarrow> js_error + link_element" where
  "NewSettingsWarning loc =
     (case (case loc of None \<Rightarrow> None | Some l \<Rightarrow> pathname l) of
        None \<Rightarrow> Inl TypeError
      | Some p \<Rightarrow>
          Inr \<lparr>LinkWithFallback = (if isRouter p then Link else Anchor),
               props = \<lparr>href = (if isRouter p then None else Some (oldLocation p)),
                        to = (if isRouter p then Some (oldLocation p) else None)\<rparr>\<rparr>)"


section \<open>The account branch as the specification words it\<close>

text \<open>
  The specification describes the first replacement of the account branch as the
  removal of a trailing \<^verbatim>\<open>details/\<close> segment.  This is that reading: the suffix is
  removed when the string ends with it, and the string is left alone otherwise.
\<close>

definition remove_trailing :: "string \<Rightarrow> string \<Rightarrow> string" where
  "remove_trailing seg s =
     (case match_literal (rev seg) (rev s) of
        Some r \<Rightarrow> rev r
      | None \<Rightarrow> s)"

definition spec_account_steps :: "string \<Rightarrow> string" where
  "spec_account_steps s =
     replace_string ''auth-tokens/'' ''''
       (replace_string ''account/settings/api/'' ''api/''
         (replace_string ''settings/close-account/'' ''remove/''
           (remove_trailing ''details/'' s)))"


section \<open>The danger zone of \<^verbatim>\<open>projectGeneralSettings.jsx\<close> and \<^verbatim>\<open>teamSettings.jsx\<close>\<close>

record organization =
  access :: "string list"

record project =
  slug :: string
  isInternal :: bool

record params =
  orgId :: string
  projectId :: string
  teamId :: string

text \<open>
  What one row of the project administration panel shows: a help message alone, or a
  label with its help text and a danger button that links to the legacy action page.
\<close>

datatype form_field =
    HelpOnly string
  | ActionLink (field_label: string) (field_help: string) (button_href: string)

text \<open>
  \<^verbatim>\<open>getOrganizationState(organization).getAccess()\<close> comes from
  \<^verbatim>\<open>mixins/organizationState\<close>, which is not among the sources at hand; the views
  only ask the returned set for membership, so it is a parameter here.
\<close>

definition renderRemoveProject ::
    "(organization \<Rightarrow> string set) \<Rightarrow> organization \<Rightarrow> project \<Rightarrow> params \<Rightarrow> form_field" where
  "renderRemoveProject getAccess org proj ps =
     (let isProjectAdmin = (''project:admin'' \<in> getAccess org)
      in if \<not> isProjectAdmin then
           HelpOnly ''You do not have the required permission to remove this project.''
         else if isInternal proj then
           HelpOnly ''This project cannot be removed. It is used internally by the Sentry server.''
         else
           ActionLink ''Remove Project''
             (''Remove the '' @ slug proj @
              '' project and all related data. Careful, this action cannot be undone.'')
             (''/'' @ orgId ps @ ''/'' @ projectId ps @ ''/settings/remove/''))"

definition renderTransferProject ::
    "(organization \<Rightarrow> string set) \<Rightarrow> organization \<Rightarrow> project \<Rightarrow> params \<Rightarrow> form_field" where
  "renderTransferProject getAccess org proj ps =
     (let isProjectAdmin = (''project:admin'' \<in> getAccess org)
      in if \<not> isProjectAdmin then
           HelpOnly ''You do not have the required permission to transfer this project.''
         else if isInternal proj then
           HelpOnly ''This project cannot be removed. It is used internally by the Sentry server.''
         else
           ActionLink ''Transfer Project''
             (''Transfer the '' @ slug proj @
              '' project and all related data. Careful, this action cannot be undone.'')
             (''/'' @ orgId ps @ ''/'' @ projectId ps @ ''/settings/transfer/''))"

text \<open>
  The part of \<^verbatim>\<open>TeamSettings.renderBody\<close> after the form: the box with the Remove
  Team button, given by the button's target, or nothing when the conjunction
  \<^verbatim>\<open>access.has('team:admin') && ...\<close> is false.  The access set is built from
  the organization's access list.
\<close>

definition renderRemoveTeam :: "organization \<Rightarrow> params \<Rightarrow> string option" where
  "renderRemoveTeam org ps =
     (let access_set = set (access org)
      in if ''team:admin'' \<in> access_set
         then Some (''/organizations/'' @ orgId ps @ ''/teams/'' @ teamId ps @ ''/remove/'')
         else None)"


section \<open>Facts about the pattern primitives\<close>

lemma match_literal_iff: "match_literal pat s = Some r \<longleftrightarrow> s = pat @ r"
  by (induction pat s rule: match_literal.induct) auto

lemma match_literal_append: "match_literal pat (pat @ r) = Some r"
  by (simp add: match_literal_iff)

lemma match_literal_None_iff: "match_literal pat s = None \<longleftrightarrow> (\<forall>r. s \<noteq> pat @ r)"
proof -
  have "match_literal pat s \<noteq> None \<longleftrightarrow> (\<exists>r. s = pat @ r)"
    using match_literal_iff [of pat s] by auto
  then show ?thesis by blast
qed

lemma takeWhile_segment:
  "CHR ''/'' \<notin> set g \<Longrightarrow> takeWhile not_slash (g @ CHR ''/'' # r) = g"
  by (induction g) (auto simp: not_slash_def)

lemma dropWhile_segment:
  "CHR ''/'' \<notin> set g \<Longrightarrow> dropWhile not_slash (g @ CHR ''/'' # r) = CHR ''/'' # r"
  by (induction g) (auto simp: not_slash_def)

lemma match_segment_append:
  "g \<noteq> [] \<Longrightarrow> CHR ''/'' \<notin> set g \<Longrightarrow>
   match_segment (g @ CHR ''/'' # r) = Some (g, CHR ''/'' # r)"
  by (simp add: match_segment_def takeWhile_segment dropWhile_segment)

lemma match_segment_SomeD:
  "match_segment s = Some (g, r) \<Longrightarrow> s = g @ r \<and> g \<noteq> [] \<and> CHR ''/'' \<notin> set g"
  by (auto simp: match_segment_def Let_def not_slash_def split: if_splits dest: set_takeWhileD)

lemma regex_test_iff: "regex_test m s \<longleftrightarrow> (\<exists>u v. s = u @ v \<and> m v)"
proof (induction s)
  case Nil
  then show ?case by simp
next
  case step: (Cons c cs)
  show ?case
  proof
    assume "regex_test m (c # cs)"
    then consider "m (c # cs)" | "regex_test m cs" by auto
    then show "\<exists>u v. c # cs = u @ v \<and> m v"
    proof cases
      case 1
      then have "c # cs = [] @ (c # cs) \<and> m (c # cs)" by simp
      then show ?thesis by blast
    next
      case 2
      with step.IH obtain u v where "cs = u @ v" "m v" by blast
      then have "c # cs = (c # u) @ v \<and> m v" by simp
      then show ?thesis by blast
    qed
  next
    assume "\<exists>u v. c # cs = u @ v \<and> m v"
    then obtain u v where uv: "c # cs = u @ v" "m v" by blast
    show "regex_test m (c # cs)"
    proof (cases u)
      case Nil
      with uv have "m (c # cs)" by simp
      then show ?thesis by simp
    next
      case (Cons a u')
      with uv have "cs = u' @ v" by simp
      with uv(2) step.IH have "regex_test m cs" by blast
      then show ?thesis by simp
    qed
  qed
qed

lemma auth_or_account_iff:
  "auth_or_account s \<longleftrightarrow> (\<exists>r. s = ''/auth/'' @ r) \<or> (\<exists>r. s = ''/account/'' @ r)"
proof -
  have a: "(\<exists>r. s = ''/auth/'' @ r) \<longleftrightarrow>
        (\<exists>s1 s2 r. match_literal ''/'' s = Some s1 \<and> match_literal ''auth'' s1 = Some s2 \<and>
           match_literal ''/'' s2 = Some r)"
    unfolding match_literal_iff by auto
  have b: "(\<exists>r. s = ''/account/'' @ r) \<longleftrightarrow>
        (\<exists>s1 s2 r. match_literal ''/'' s = Some s1 \<and> match_literal ''account'' s1 = Some s2 \<and>
           match_literal ''/'' s2 = Some r)"
    unfolding match_literal_iff by auto
  show ?thesis
    unfolding a b auth_or_account_def
    by (auto split: option.splits)
qed

text \<open>
  \<open>replace_string\<close> replaces the first occurrence only: a string without the pattern
  is unchanged, and an occurrence is replaced when no occurrence starts before it.
\<close>

lemma replace_string_absent:
  "\<not> regex_test (\<lambda>t. match_literal pat t \<noteq> None) s \<Longrightarrow> replace_string pat rep s = s"
proof (induction s)
  case Nil
  then have "pat \<noteq> []" by (cases pat) auto
  then show ?case by simp
next
  case (Cons c cs)
  then have "match_literal pat (c # cs) = None"
    and "\<not> regex_test (\<lambda>t. match_literal pat t \<noteq> None) cs"
    by auto
  with Cons.IH show ?case by simp
qed

lemma replace_string_here: "replace_string pat rep (pat @ v) = rep @ v"
proof (cases "pat @ v")
  case Nil
  then show ?thesis by simp
next
  case (Cons c cs)
  have "match_literal pat (pat @ v) = Some v" by (rule match_literal_append)
  with Cons show ?thesis by simp
qed

lemma replace_string_first:
  "(\<And>u1 u2. u = u1 @ u2 \<Longrightarrow> u2 \<noteq> [] \<Longrightarrow> match_literal pat (u2 @ pat @ v) = None) \<Longrightarrow>
   replace_string pat rep (u @ pat @ v) = u @ rep @ v"
proof (induction u)
  case Nil
  show ?case by (simp add: replace_string_here)
next
  case (Cons c u)
  have "match_literal pat ((c # u) @ pat @ v) = None"
    by (rule Cons.prems [of "[]"]) simp_all
  moreover have "replace_string pat rep (u @ pat @ v) = u @ rep @ v"
  proof (rule Cons.IH)
    fix u1 u2
    assume "u = u1 @ u2" and "u2 \<noteq> []"
    then show "match_literal pat (u2 @ pat @ v) = None"
      using Cons.prems [of "c # u1" u2] by simp
  qed
  ultimately show ?case by simp
qed


section \<open>Facts about the three path patterns\<close>

lemma projectRegex_form:
  assumes "org \<noteq> []" and "CHR ''/'' \<notin> set org" and "proj \<noteq> []" and "CHR ''/'' \<notin> set proj"
  shows "projectRegex (''/settings/organization/'' @ org @ ''/project/'' @ proj @ ''/'' @ rest)
         = Some (org, proj, rest)"
  using assms by (simp add: projectRegex_def match_segment_append)

lemma projectRegex_SomeD:
  assumes "projectRegex s = Some (org, proj, rest)"
  shows "s = ''/settings/organization/'' @ org @ ''/project/'' @ proj @ ''/'' @ rest"
    and "org \<noteq> []" and "CHR ''/'' \<notin> set org" and "proj \<noteq> []" and "CHR ''/'' \<notin> set proj"
proof -
  from assms obtain s1 s2 s3 s4 where
    m1: "match_literal ''/settings/organization/'' s = Some s1" and
    m2: "match_segment s1 = Some (org, s2)" and
    m3: "match_literal ''/project/'' s2 = Some s3" and
    m4: "match_segment s3 = Some (proj, s4)" and
    m5: "match_literal ''/'' s4 = Some rest"
    by (auto simp: projectRegex_def bind_eq_Some_conv)
  from m1 have e1: "s = ''/settings/organization/'' @ s1" by (simp only: match_literal_iff)
  from m3 have e3: "s2 = ''/project/'' @ s3" by (simp only: match_literal_iff)
  from m5 have e5: "s4 = ''/'' @ rest" by (simp only: match_literal_iff)
  from match_segment_SomeD [OF m2] have e2: "s1 = org @ s2" and o: "org \<noteq> []" "CHR ''/'' \<notin> set org"
    by simp_all
  from match_segment_SomeD [OF m4] have e4: "s3 = proj @ s4" and p: "proj \<noteq> []" "CHR ''/'' \<notin> set proj"
    by simp_all
  show "s = ''/settings/organization/'' @ org @ ''/project/'' @ proj @ ''/'' @ rest"
    by (simp only: e1 e2 e3 e4 e5)
  show "org \<noteq> []" "CHR ''/'' \<notin> set org" "proj \<noteq> []" "CHR ''/'' \<notin> set proj"
    using o p by simp_all
qed

lemma accountRegex_form:
  assumes "sec \<noteq> []" and "CHR ''/'' \<notin> set sec"
  shows "accountRegex (''/settings/account/'' @ sec @ ''/'' @ rest) = Some (sec, rest)"
  using assms by (simp add: accountRegex_def match_segment_append)

lemma accountRegex_SomeD:
  assumes "accountRegex s = Some (sec, rest)"
  shows "s = ''/settings/account/'' @ sec @ ''/'' @ rest"
    and "sec \<noteq> []" and "CHR ''/'' \<notin> set sec"
proof -
  from assms obtain s1 s2 where
    m1: "match_literal ''/settings/account/'' s = Some s1" and
    m2: "match_segment s1 = Some (sec, s2)" and
    m3: "match_literal ''/'' s2 = Some rest"
    by (auto simp: accountRegex_def bind_eq_Some_conv)
  from m1 have e1: "s = ''/settings/account/'' @ s1" by (simp only: match_literal_iff)
  from m3 have e3: "s2 = ''/'' @ rest" by (simp only: match_literal_iff)
  from match_segment_SomeD [OF m2] have e2: "s1 = sec @ s2" and o: "sec \<noteq> []" "CHR ''/'' \<notin> set sec"
    by simp_all
  show "s = ''/settings/account/'' @ sec @ ''/'' @ rest"
    by (simp only: e1 e2 e3)
  show "sec \<noteq> []" "CHR ''/'' \<notin> set sec"
    using o by simp_all
qed

text \<open>The two capturing patterns start with different literals, so no path matches both.\<close>

lemma project_not_account: "isProject p \<Longrightarrow> \<not> isAccount p"
proof
  assume "isProject p" and "isAccount p"
  then obtain org proj rest sec rest' where
    "projectRegex p = Some (org, proj, rest)" and "accountRegex p = Some (sec, rest')"
    by (auto simp: isProject_def isAccount_def)
  then have "p = ''/settings/organization/'' @ org @ ''/project/'' @ proj @ ''/'' @ rest"
    and "p = ''/settings/account/'' @ sec @ ''/'' @ rest'"
    by (simp_all only: projectRegex_SomeD(1) accountRegex_SomeD(1))
  then show False by simp
qed

text \<open>
  A location without a \<^verbatim>\<open>pathname\<close>, the parameter's default among them, makes the
  component throw.
\<close>

lemma missing_pathname_throws:
  "NewSettingsWarning None = Inl TypeError"
  "pathname l = None \<Longrightarrow> NewSettingsWarning (Some l) = Inl TypeError"
  by (simp_all add: NewSettingsWarning_def)

lemma isRouter_iff:
  "isRouter p \<longleftrightarrow> \<not> ((\<exists>u v. p = u @ ''/auth/'' @ v) \<or> (\<exists>u v. p = u @ ''/account/'' @ v))"
  unfolding isRouter_def regex_test_iff auth_or_account_iff by blast


section \<open>The translator on the three shapes of path\<close>

text \<open>
  Claim C1.  For the path \<^verbatim>\<open>/settings/account/close-account/\<close> the specification
  gives the legacy path \<^verbatim>\<open>/account/settings/remove/\<close>.  The component does not
  produce it: the pattern \<^verbatim>\<open>settings/close-account/\<close> of the second replacement
  includes the \<^verbatim>\<open>settings/\<close> segment, which is therefore replaced as well.
\<close>

theorem close_account_counterexample:
  "oldLocation ''/settings/account/close-account/'' \<noteq> ''/account/settings/remove/''"
  by (simp add: oldLocation_def isProject_def isAccount_def projectRegex_def accountRegex_def
      match_segment_def not_slash_def replace_accountRegex_def account_replacements_def)

text \<open>
  Claim C1, as amended.  For the path \<^verbatim>\<open>/settings/account/close-account/\<close> the
  legacy path is \<^verbatim>\<open>/account/remove/\<close>, and it is rendered as a plain anchor.
\<close>

theorem close_account_legacy_path:
  "oldLocation ''/settings/account/close-account/'' = ''/account/remove/'' \<and>
   NewSettingsWarning (Some \<lparr>pathname = Some ''/settings/account/close-account/''\<rparr>) =
     Inr \<lparr>LinkWithFallback = Anchor,
          props = \<lparr>href = Some ''/account/remove/'', to = None\<rparr>\<rparr>"
  by (simp add: NewSettingsWarning_def isRouter_def auth_or_account_def
      oldLocation_def isProject_def isAccount_def projectRegex_def accountRegex_def
      match_segment_def not_slash_def replace_accountRegex_def account_replacements_def)

text \<open>
  Claim C2.  For every path \<^verbatim>\<open>/settings/organization/ORG/project/PROJ/rest\<close> in which
  \<^verbatim>\<open>ORG\<close> and \<^verbatim>\<open>PROJ\<close> are non-empty and contain no slash, the legacy path is
  \<^verbatim>\<open>/ORG/PROJ/settings/rest\<close>.
\<close>

theorem project_path_rewrite:
  assumes "org \<noteq> []" and "CHR ''/'' \<notin> set org" and "proj \<noteq> []" and "CHR ''/'' \<notin> set proj"
  shows "oldLocation (''/settings/organization/'' @ org @ ''/project/'' @ proj @ ''/'' @ rest)
         = ''/'' @ org @ ''/'' @ proj @ ''/settings/'' @ rest"
proof -
  let ?p = "''/settings/organization/'' @ org @ ''/project/'' @ proj @ ''/'' @ rest"
  have m: "projectRegex ?p = Some (org, proj, rest)"
    using assms by (rule projectRegex_form)
  then have "isProject ?p" by (simp only: isProject_def) simp
  then have "oldLocation ?p = replace_projectRegex ?p" by (simp only: oldLocation_def if_True)
  also have "\<dots> = ''/'' @ org @ ''/'' @ proj @ ''/settings/'' @ rest"
    by (simp only: replace_projectRegex_def m option.case prod.case)
  finally show ?thesis .
qed

theorem project_path_rewrite_witness:
  "''acme'' \<noteq> [] \<and> CHR ''/'' \<notin> set ''acme'' \<and> ''web'' \<noteq> [] \<and> CHR ''/'' \<notin> set ''web'' \<and>
   oldLocation ''/settings/organization/acme/project/web/keys/'' = ''/acme/web/settings/keys/''"
  using project_path_rewrite [of "''acme''" "''web''" "''keys/''"] by simp

text \<open>
  Claim C3.  The specification words the account branch as: rewrite to
  \<^verbatim>\<open>/account/settings/{section}/...\<close>, then remove a trailing \<^verbatim>\<open>details/\<close>
  segment, then the three other replacements.  The component removes the first
  \<^verbatim>\<open>details/\<close> wherever it stands: on \<^verbatim>\<open>/settings/account/details/foo/\<close>, which
  does not end with \<^verbatim>\<open>details/\<close>, it returns \<^verbatim>\<open>/account/settings/foo/\<close>, and
  the steps as worded return \<^verbatim>\<open>/account/settings/details/foo/\<close>.
\<close>

theorem account_steps_counterexample:
  "isAccount ''/settings/account/details/foo/'' \<and>
   \<not> isProject ''/settings/account/details/foo/'' \<and>
   oldLocation ''/settings/account/details/foo/'' = ''/account/settings/foo/'' \<and>
   spec_account_steps (replace_accountRegex ''/settings/account/details/foo/'')
     = ''/account/settings/details/foo/''"
  by (simp add: oldLocation_def isProject_def isAccount_def projectRegex_def accountRegex_def
      match_segment_def not_slash_def replace_accountRegex_def account_replacements_def
      spec_account_steps_def remove_trailing_def)

text \<open>
  Claim C3, as amended.  For every path \<^verbatim>\<open>/settings/account/SECTION/rest\<close> in which
  \<^verbatim>\<open>SECTION\<close> is non-empty and contains no slash, the legacy path is obtained from
  \<^verbatim>\<open>/account/settings/SECTION/rest\<close> by replacing, in this order and each time only
  at the first occurrence of the literal: \<^verbatim>\<open>details/\<close> by nothing, wherever it
  occurs; \<^verbatim>\<open>settings/close-account/\<close> by \<^verbatim>\<open>remove/\<close>;
  \<^verbatim>\<open>account/settings/api/\<close> by \<^verbatim>\<open>api/\<close>; \<^verbatim>\<open>auth-tokens/\<close> by nothing.
\<close>

theorem account_path_rewrite:
  assumes "sec \<noteq> []" and "CHR ''/'' \<notin> set sec"
  shows "oldLocation (''/settings/account/'' @ sec @ ''/'' @ rest) =
         replace_string ''auth-tokens/'' ''''
           (replace_string ''account/settings/api/'' ''api/''
             (replace_string ''settings/close-account/'' ''remove/''
               (replace_string ''details/'' ''''
                 (''/account/settings/'' @ sec @ ''/'' @ rest))))"
proof -
  let ?p = "''/settings/account/'' @ sec @ ''/'' @ rest"
  have m: "accountRegex ?p = Some (sec, rest)"
    using assms by (rule accountRegex_form)
  then have a: "isAccount ?p" by (simp only: isAccount_def) simp
  with project_not_account have n: "\<not> isProject ?p" by blast
  have r: "replace_accountRegex ?p = ''/account/settings/'' @ sec @ ''/'' @ rest"
    by (simp only: replace_accountRegex_def m option.case prod.case)
  from a n have "oldLocation ?p = account_replacements (replace_accountRegex ?p)"
    by (simp only: oldLocation_def if_True if_False)
  then show ?thesis by (simp only: r account_replacements_def)
qed

theorem account_path_rewrite_witness:
  "''api'' \<noteq> [] \<and> CHR ''/'' \<notin> set ''api'' \<and>
   oldLocation ''/settings/account/api/auth-tokens/'' = ''/api/''"
  using account_path_rewrite [of "''api''" "''auth-tokens/''"] by simp

text \<open>
  Claim C5.  For every path that matches neither the project pattern nor the account
  pattern, the legacy path is the input with a leading \<^verbatim>\<open>/settings/organization/\<close>
  replaced by \<^verbatim>\<open>/organizations/\<close>; a path that does not start with that prefix is
  returned as it is.
\<close>

theorem organization_default_rewrite:
  assumes "\<not> isProject p" and "\<not> isAccount p"
  shows "(\<forall>rest. p = ''/settings/organization/'' @ rest \<longrightarrow>
            oldLocation p = ''/organizations/'' @ rest) \<and>
         ((\<forall>rest. p \<noteq> ''/settings/organization/'' @ rest) \<longrightarrow> oldLocation p = p)"
proof -
  from assms have d: "oldLocation p = replace_organizationRegex p"
    by (simp only: oldLocation_def if_False)
  have 1: "oldLocation p = ''/organizations/'' @ rest"
    if "p = ''/settings/organization/'' @ rest" for rest
  proof -
    from that have "match_literal ''/settings/organization/'' p = Some rest"
      by (simp only: match_literal_iff)
    then show ?thesis
      by (simp only: d replace_organizationRegex_def organizationRegex_def option.case)
  qed
  have 2: "oldLocation p = p" if "\<forall>rest. p \<noteq> ''/settings/organization/'' @ rest"
  proof -
    from that have "match_literal ''/settings/organization/'' p = None"
      using match_literal_None_iff [of "''/settings/organization/''" p] by blast
    then show ?thesis
      by (simp only: d replace_organizationRegex_def organizationRegex_def option.case)
  qed
  from 1 2 show ?thesis by blast
qed

theorem organization_default_rewrite_witness:
  "\<not> isProject ''/settings/organization/acme/teams/'' \<and>
   \<not> isAccount ''/settings/organization/acme/teams/'' \<and>
   oldLocation ''/settings/organization/acme/teams/'' = ''/organizations/acme/teams/'' \<and>
   \<not> isProject ''/settings/account/'' \<and>
   \<not> isAccount ''/settings/account/'' \<and>
   oldLocation ''/settings/account/'' = ''/settings/account/''"
proof -
  have a: "\<not> isProject ''/settings/organization/acme/teams/''"
    and b: "\<not> isAccount ''/settings/organization/acme/teams/''"
    and c: "\<not> isProject ''/settings/account/''"
    and d: "\<not> isAccount ''/settings/account/''"
    by (simp_all add: isProject_def isAccount_def projectRegex_def accountRegex_def
        match_segment_def not_slash_def)
  from organization_default_rewrite [OF a b]
  have "oldLocation ''/settings/organization/acme/teams/'' = ''/organizations/'' @ ''acme/teams/''"
    by simp
  moreover from organization_default_rewrite [OF c d]
  have "oldLocation ''/settings/account/'' = ''/settings/account/''"
    by simp
  ultimately show ?thesis using a b c d by simp
qed

text \<open>
  Claim C6.  The path \<^verbatim>\<open>/settings/account/api/\<close> is first rewritten to
  \<^verbatim>\<open>/account/settings/api/\<close>; the first two replacements leave that string alone,
  the replacement of \<^verbatim>\<open>account/settings/api/\<close> by \<^verbatim>\<open>api/\<close> turns it into
  \<^verbatim>\<open>/api/\<close>, and \<^verbatim>\<open>/api/\<close> is the legacy path.
\<close>

theorem account_api_legacy_path:
  "replace_accountRegex ''/settings/account/api/'' = ''/account/settings/api/'' \<and>
   replace_string ''settings/close-account/'' ''remove/''
     (replace_string ''details/'' '''' ''/account/settings/api/'') = ''/account/settings/api/'' \<and>
   replace_string ''account/settings/api/'' ''api/'' ''/account/settings/api/'' = ''/api/'' \<and>
   oldLocation ''/settings/account/api/'' = ''/api/''"
  by (simp add: oldLocation_def isProject_def isAccount_def projectRegex_def accountRegex_def
      match_segment_def not_slash_def replace_accountRegex_def account_replacements_def)

text \<open>
  Claim C7.  The first matching rule wins.  A path that matches the project pattern is
  the matched prefix followed by a rest, and its legacy path is
  \<^verbatim>\<open>/ORG/PROJ/settings/\<close> followed by the same rest, whatever the rest contains:
  none of the replacements of the account branch, and not the organization rewrite,
  is applied to it.
\<close>

theorem project_rest_unchanged:
  assumes "isProject p"
  shows "\<exists>org proj rest.
           projectRegex p = Some (org, proj, rest) \<and>
           p = ''/settings/organization/'' @ org @ ''/project/'' @ proj @ ''/'' @ rest \<and>
           oldLocation p = ''/'' @ org @ ''/'' @ proj @ ''/settings/'' @ rest"
proof -
  from assms obtain org proj rest where m: "projectRegex p = Some (org, proj, rest)"
    by (auto simp: isProject_def)
  then have f: "p = ''/settings/organization/'' @ org @ ''/project/'' @ proj @ ''/'' @ rest"
    by (rule projectRegex_SomeD(1))
  from assms have "oldLocation p = replace_projectRegex p"
    by (simp only: oldLocation_def if_True)
  also have "\<dots> = ''/'' @ org @ ''/'' @ proj @ ''/settings/'' @ rest"
    by (simp only: replace_projectRegex_def m option.case prod.case)
  finally show ?thesis using m f by blast
qed

theorem project_rest_unchanged_witness:
  "isProject ''/settings/organization/acme/project/web/details/auth-tokens/settings/close-account/'' \<and>
   oldLocation ''/settings/organization/acme/project/web/details/auth-tokens/settings/close-account/''
     = ''/acme/web/settings/details/auth-tokens/settings/close-account/''"
proof -
  let ?p = "''/settings/organization/acme/project/web/details/auth-tokens/settings/close-account/''"
  have m: "projectRegex ?p = Some (''acme'', ''web'', ''details/auth-tokens/settings/close-account/'')"
    by (simp add: projectRegex_def match_segment_def not_slash_def)
  then have h: "isProject ?p" by (simp only: isProject_def) simp
  from project_rest_unchanged [OF h] m show ?thesis using h by auto
qed


section \<open>The routing mode and totality\<close>

text \<open>
  Claim C4.  For every path the rendered link is the plain anchor exactly when the
  path contains \<^verbatim>\<open>/auth/\<close> or \<^verbatim>\<open>/account/\<close>, and the router's link exactly when
  it contains neither.
\<close>

theorem routing_mode:
  assumes "pathname l = Some p"
  shows "\<exists>e. NewSettingsWarning (Some l) = Inr e \<and>
           (LinkWithFallback e = Anchor \<longleftrightarrow>
              (\<exists>u v. p = u @ ''/auth/'' @ v) \<or> (\<exists>u v. p = u @ ''/account/'' @ v)) \<and>
           (LinkWithFallback e = Link \<longleftrightarrow>
              \<not> ((\<exists>u v. p = u @ ''/auth/'' @ v) \<or> (\<exists>u v. p = u @ ''/account/'' @ v)))"
proof (cases "isRouter p")
  case True
  with assms have "NewSettingsWarning (Some l) =
      Inr \<lparr>LinkWithFallback = Link, props = \<lparr>href = None, to = Some (oldLocation p)\<rparr>\<rparr>"
    by (simp add: NewSettingsWarning_def)
  moreover from True
  have "\<not> ((\<exists>u v. p = u @ ''/auth/'' @ v) \<or> (\<exists>u v. p = u @ ''/account/'' @ v))"
    using isRouter_iff [of p] by blast
  ultimately show ?thesis by simp
next
  case False
  with assms have "NewSettingsWarning (Some l) =
      Inr \<lparr>LinkWithFallback = Anchor, props = \<lparr>href = Some (oldLocation p), to = None\<rparr>\<rparr>"
    by (simp add: NewSettingsWarning_def)
  moreover from False
  have "(\<exists>u v. p = u @ ''/auth/'' @ v) \<or> (\<exists>u v. p = u @ ''/account/'' @ v)"
    using isRouter_iff [of p] by blast
  ultimately show ?thesis by simp
qed

theorem routing_mode_witness:
  "pathname \<lparr>pathname = Some ''/settings/organization/acme/auth/''\<rparr>
     = Some ''/settings/organization/acme/auth/'' \<and>
   (\<exists>e. NewSettingsWarning (Some \<lparr>pathname = Some ''/settings/organization/acme/auth/''\<rparr>) = Inr e \<and>
        LinkWithFallback e = Anchor)"
proof -
  let ?p = "''/settings/organization/acme/auth/''"
  have h: "pathname \<lparr>pathname = Some ?p\<rparr> = Some ?p" by simp
  have c: "?p = ''/settings/organization/acme'' @ ''/auth/'' @ []" by simp
  from routing_mode [OF h] obtain e where
    e: "NewSettingsWarning (Some \<lparr>pathname = Some ?p\<rparr>) = Inr e" and
    a: "LinkWithFallback e = Anchor \<longleftrightarrow>
          (\<exists>u v. ?p = u @ ''/auth/'' @ v) \<or> (\<exists>u v. ?p = u @ ''/account/'' @ v)"
    by blast
  from c have "\<exists>u v. ?p = u @ ''/auth/'' @ v" by blast
  with a have "LinkWithFallback e = Anchor" by blast
  with e h show ?thesis by blast
qed

text \<open>
  Claim C8.  For every path string the component returns a link and does not throw:
  the link carries the legacy path, in \<^verbatim>\<open>href\<close> of a plain anchor or in \<^verbatim>\<open>to\<close>
  of a router link.
\<close>

theorem translator_total:
  assumes "pathname l = Some p"
  shows "\<exists>e. NewSettingsWarning (Some l) = Inr e \<and>
           (LinkWithFallback e = Anchor \<and> href (props e) = Some (oldLocation p) \<and>
              to (props e) = None
            \<or> LinkWithFallback e = Link \<and> href (props e) = None \<and>
              to (props e) = Some (oldLocation p))"
  using assms by (cases "isRouter p") (simp_all add: NewSettingsWarning_def)

theorem translator_total_witness:
  "pathname \<lparr>pathname = Some ''not a settings path''\<rparr> = Some ''not a settings path'' \<and>
   (\<exists>e. NewSettingsWarning (Some \<lparr>pathname = Some ''not a settings path''\<rparr>) = Inr e)"
proof -
  have h: "pathname \<lparr>pathname = Some ''not a settings path''\<rparr> = Some ''not a settings path''"
    by simp
  from translator_total [OF h] show ?thesis using h by blast
qed


section \<open>The danger zone\<close>

text \<open>
  Claim C9.  The Remove Project and the Transfer Project rows show their action link
  exactly when the access set holds \<^verbatim>\<open>project:admin\<close> and the project is not
  internal, and a help message alone otherwise; the Remove Team box is rendered exactly
  when the organization's access list holds \<^verbatim>\<open>team:admin\<close>.
\<close>

theorem danger_zone_gating:
  "((\<exists>l h t. renderRemoveProject getAccess org proj ps = ActionLink l h t) \<longleftrightarrow>
      ''project:admin'' \<in> getAccess org \<and> \<not> isInternal proj) \<and>
   ((\<exists>m. renderRemoveProject getAccess org proj ps = HelpOnly m) \<longleftrightarrow>
      \<not> (''project:admin'' \<in> getAccess org \<and> \<not> isInternal proj)) \<and>
   ((\<exists>l h t. renderTransferProject getAccess org proj ps = ActionLink l h t) \<longleftrightarrow>
      ''project:admin'' \<in> getAccess org \<and> \<not> isInternal proj) \<and>
   ((\<exists>m. renderTransferProject getAccess org proj ps = HelpOnly m) \<longleftrightarrow>
      \<not> (''project:admin'' \<in> getAccess org \<and> \<not> isInternal proj)) \<and>
   ((\<exists>t. renderRemoveTeam org ps = Some t) \<longleftrightarrow> ''team:admin'' \<in> set (access org))"
  by (simp add: renderRemoveProject_def renderTransferProject_def renderRemoveTeam_def)

theorem danger_zone_gating_witness:
  "renderRemoveProject (\<lambda>org. set (access org))
     \<lparr>access = [''project:read'', ''project:admin'']\<rparr> \<lparr>slug = ''web'', isInternal = False\<rparr>
     \<lparr>orgId = ''acme'', projectId = ''web'', teamId = ''ops''\<rparr>
   = ActionLink ''Remove Project''
       ''Remove the web project and all related data. Careful, this action cannot be undone.''
       ''/acme/web/settings/remove/'' \<and>
   renderRemoveTeam \<lparr>access = [''project:read'', ''project:admin'']\<rparr>
     \<lparr>orgId = ''acme'', projectId = ''web'', teamId = ''ops''\<rparr> = None"
  using danger_zone_gating [of "\<lambda>org. set (access org)"
      "\<lparr>access = [''project:read'', ''project:admin'']\<rparr>" "\<lparr>slug = ''web'', isInternal = False\<rparr>"
      "\<lparr>orgId = ''acme'', projectId = ''web'', teamId = ''ops''\<rparr>"]
  by (simp add: renderRemoveProject_def renderRemoveTeam_def)

end
